theory Spec2Isabelle
  imports Main
begin

section \<open>Python string primitives used by the assistant\<close>

text \<open>
  Python strings are modelled as \<^typ>\<open>string\<close>: lists of characters with code points
  0..255. On this range \<open>str.isspace\<close>, the regular-expression classes \<open>\s\<close> and \<open>\d\<close>,
  \<open>str.lower\<close> and case-insensitive matching of ASCII letters are the tables below.
\<close>

definition dquote :: char where
  "dquote = CHR 0x22"

definition squote :: char where
  "squote = CHR 0x27"

definition newline :: char where
  "newline = CHR 0x0A"

text \<open>\<open>str.isspace\<close> and the class \<open>\s\<close>: TAB..CR, FS..US, space, NEL and NBSP.\<close>

definition isspace :: "char \<Rightarrow> bool" where
  "isspace c = (let n = (of_char c :: nat) in
     (9 \<le> n \<and> n \<le> 13) \<or> (28 \<le> n \<and> n \<le> 32) \<or> n = 133 \<or> n = 160)"

text \<open>The class \<open>\d\<close>: the decimal digits.\<close>

definition isdigit :: "char \<Rightarrow> bool" where
  "isdigit c = (let n = (of_char c :: nat) in 48 \<le> n \<and> n \<le> 57)"

text \<open>The classes \<open>[A-Z]\<close> and \<open>[a-z]\<close> under \<open>re.IGNORECASE\<close>: the 52 ASCII letters.\<close>

definition isletter :: "char \<Rightarrow> bool" where
  "isletter c = (let n = (of_char c :: nat) in (65 \<le> n \<and> n \<le> 90) \<or> (97 \<le> n \<and> n \<le> 122))"

text \<open>\<open>str.lower\<close> on one character: A..Z and the Latin-1 capitals (not the times sign).\<close>

definition lower_char :: "char \<Rightarrow> char" where
  "lower_char c = (let n = (of_char c :: nat) in
     if (65 \<le> n \<and> n \<le> 90) \<or> (192 \<le> n \<and> n \<le> 222 \<and> n \<noteq> 215) then char_of (n + 32) else c)"

definition lower :: "string \<Rightarrow> string" where
  "lower s = map lower_char s"

definition startswith :: "string \<Rightarrow> string \<Rightarrow> bool" where
  "startswith s p = (take (length p) s = p)"

definition endswith :: "string \<Rightarrow> string \<Rightarrow> bool" where
  "endswith s p = (length p \<le> length s \<and> drop (length s - length p) s = p)"

text \<open>The substring test \<open>p in s\<close>.\<close>

fun contains :: "string \<Rightarrow> string \<Rightarrow> bool" where
  "contains [] p = (p = [])"
| "contains (c # cs) p = (startswith (c # cs) p \<or> contains cs p)"

text \<open>\<open>s.strip()\<close> and \<open>s.strip(chars)\<close>.\<close>

definition strip :: "string \<Rightarrow> string" where
  "strip s = rev (dropWhile isspace (rev (dropWhile isspace s)))"

definition strip_chars :: "char list \<Rightarrow> string \<Rightarrow> string" where
  "strip_chars cs s = rev (dropWhile (\<lambda>c. c \<in> set cs) (rev (dropWhile (\<lambda>c. c \<in> set cs) s)))"

text \<open>\<open>s.split(sep)\<close> for a one-character separator: always at least one piece.\<close>

fun split_on :: "char \<Rightarrow> string \<Rightarrow> string list" where
  "split_on sep [] = [[]]"
| "split_on sep (c # cs) =
     (if c = sep then [] # split_on sep cs
      else (case split_on sep cs of
              [] \<Rightarrow> [[c]]
            | l # ls \<Rightarrow> (c # l) # ls))"

definition split_lines :: "string \<Rightarrow> string list" where
  "split_lines text = split_on newline text"

text \<open>\<open>' '.join(pieces)\<close>.\<close>

fun join_space :: "string list \<Rightarrow> string" where
  "join_space [] = []"
| "join_space [x] = x"
| "join_space (x # y # ys) = x @ CHR '' '' # join_space (y # ys)"

section \<open>The response sanitizer: \<open>AIEngine._extract_final_answer\<close>\<close>

definition filler :: string where
  "filler = ''I'' @ [squote] @ ''m here to help!''"

text \<open>
  \<open>re.findall(r'"([^"]{5,100})"', text)\<close>: the scan goes left to right; at a double quote
  followed by a run of 5 to 100 characters other than the double quote and then a double
  quote, the run is a match and the scan resumes after the closing quote; anywhere else
  the scan moves one character on.
\<close>

function find_quotes :: "string \<Rightarrow> string list" where
  "find_quotes [] = []"
| "find_quotes (c # cs) =
     (if c = dquote then
        (let run = takeWhile (\<lambda>x. x \<noteq> dquote) cs;
             rest = dropWhile (\<lambda>x. x \<noteq> dquote) cs
         in if 5 \<le> length run \<and> length run \<le> 100 \<and> rest \<noteq> []
            then run # find_quotes (tl rest)
            else find_quotes cs)
      else find_quotes cs)"
  by pat_completeness auto
termination
proof (relation "measure length")
  show "wf (measure length)" by simp
next
  fix c :: char and cs run rest :: string
  assume "rest = dropWhile (\<lambda>x. x \<noteq> dquote) cs"
  then have "length (tl rest) \<le> length cs"
    by (simp add: le_trans [OF diff_le_self length_dropWhile_le])
  then show "(tl rest, c # cs) \<in> measure length" by simp
qed simp_all

text \<open>The first pattern of \<open>thinking_patterns\<close>: its alternatives, matched at the line start
  ignoring case; the lazy tail and the look-ahead always succeed on a line without a newline.\<close>

definition thinking_starts :: "string list" where
  "thinking_starts =
     [''I think'', ''I should'', ''Let me'', ''I need'', ''I'' @ [squote] @ ''ll'', ''I will'',
      ''Since'', ''Given'', ''The user'', ''Draft'', ''Option'', ''Approach'', ''Constraint'',
      ''Rule'', ''Step'', ''First'', ''Wait'', ''Hmm'', ''Ok so'', ''So I'', ''My response'',
      ''I'' @ [squote] @ ''m going to'', ''thinking'', ''reasoning'', ''considering'']"

definition match_start_icase :: "string \<Rightarrow> string \<Rightarrow> bool" where
  "match_start_icase line alt = startswith (lower line) (lower alt)"

definition pattern_reasoning :: "string \<Rightarrow> bool" where
  "pattern_reasoning line = list_ex (match_start_icase line) thinking_starts"

text \<open>\<open>^\d+\.\s*.*$\<close>: one or more digits and a full stop.\<close>

definition pattern_numbered :: "string \<Rightarrow> bool" where
  "pattern_numbered line =
     (takeWhile isdigit line \<noteq> [] \<and> startswith (dropWhile isdigit line) ''.'')"

text \<open>\<open>^[-*]\s*.*$\<close>: a bullet.\<close>

definition pattern_bullet :: "string \<Rightarrow> bool" where
  "pattern_bullet line = (startswith line ''-'' \<or> startswith line ''*'')"

text \<open>\<open>^[A-Z][a-z]+:.*$\<close> under \<open>re.IGNORECASE\<close>: two or more letters and a colon.\<close>

definition pattern_label :: "string \<Rightarrow> bool" where
  "pattern_label line =
     (2 \<le> length (takeWhile isletter line) \<and> startswith (dropWhile isletter line) '':'')"

definition is_thinking :: "string \<Rightarrow> bool" where
  "is_thinking line =
     (pattern_reasoning line \<or> pattern_numbered line \<or> pattern_bullet line \<or> pattern_label line)"

definition skip_starts :: "string list" where
  "skip_starts =
     [''i think'', ''i should'', ''let me'', ''since'', ''given'', ''the user'', ''draft'',
      ''option'', ''so i'', ''i need'', ''i'' @ [squote] @ ''ll'', ''wait'', ''hmm'', ''ok'',
      ''step'', ''first'', ''constraint'', ''rule'', ''approach'', ''my response'']"

definition has_skip_start :: "string \<Rightarrow> bool" where
  "has_skip_start line = list_ex (startswith (lower line)) skip_starts"

text \<open>The filtering loop: strip each line, drop the blank ones, drop the reasoning ones.\<close>

definition clean_lines :: "string \<Rightarrow> string list" where
  "clean_lines text =
     filter (\<lambda>line. \<not> is_thinking line \<and> \<not> has_skip_start line)
       (filter (\<lambda>line. line \<noteq> []) (map strip (split_lines text)))"

text \<open>The \<open>for ... break ... else\<close> over the surviving lines.\<close>

definition pick_line :: "string list \<Rightarrow> string" where
  "pick_line ls =
     (case find (\<lambda>line. 3 < length line \<and> \<not> endswith line '':'') ls of
        Some line \<Rightarrow> line
      | None \<Rightarrow> hd ls)"

text \<open>The final cleanup: \<open>re.sub\<close> of the runs of asterisks and of hashes, then the two strips.\<close>

definition cleanup :: "string \<Rightarrow> string" where
  "cleanup text =
     strip_chars [dquote, squote]
       (strip (filter (\<lambda>c. c \<noteq> CHR ''#'') (filter (\<lambda>c. c \<noteq> CHR ''*'') text)))"

definition sentence_end :: "char \<Rightarrow> bool" where
  "sentence_end c = (c = CHR ''.'' \<or> c = CHR ''!'' \<or> c = CHR ''?'')"

text \<open>
  \<open>re.split(r'(?<=[.!?])\s+', text)\<close>: \<open>prev\<close> tells whether the character before the
  position is one of \<open>.!?\<close>, \<open>acc\<close> is the current piece, reversed. A match is a maximal run
  of white space that follows such a character.
\<close>

function split_from :: "bool \<Rightarrow> string \<Rightarrow> string \<Rightarrow> string list" where
  "split_from prev acc [] = [rev acc]"
| "split_from prev acc (c # cs) =
     (if prev \<and> isspace c then rev acc # split_from False [] (dropWhile isspace cs)
      else split_from (sentence_end c) (c # acc) cs)"
  by pat_completeness auto
termination
proof (relation "measure (\<lambda>(prev, acc, s). length s)")
  show "wf (measure (\<lambda>(prev, acc, s). length s))" by simp
next
  fix prev :: bool and acc cs :: string and c :: char
  have "length (dropWhile isspace cs) \<le> length cs" by (rule length_dropWhile_le)
  then show "((False, [], dropWhile isspace cs), (prev, acc, c # cs))
      \<in> measure (\<lambda>(prev, acc, s). length s)" by simp
qed simp_all

definition split_sentences :: "string \<Rightarrow> string list" where
  "split_sentences text = split_from False [] text"

definition limit_length :: "string \<Rightarrow> string" where
  "limit_length text =
     (if 200 < length text then join_space (take 2 (split_sentences text)) else text)"

text \<open>The text after line selection and cleanup, before the length rule.\<close>

definition cleaned :: "string \<Rightarrow> string" where
  "cleaned text =
     cleanup (let ls = clean_lines text in if ls \<noteq> [] then pick_line ls else text)"

definition extract_final_answer :: "string \<Rightarrow> string" where
  "extract_final_answer text =
     (if text = [] then filler
      else let quotes = find_quotes text in
        if quotes \<noteq> [] then strip (last quotes)
        else let t = limit_length (cleaned text) in
          if t \<noteq> [] then t else filler)"

section \<open>The backend client: \<open>AIEngine\<close>\<close>

datatype AIProvider = OLLAMA

record Message =
  role :: string
  content :: string

text \<open>An exception, as a value. The \<open>error\<close> text of a response is rendered from it:
  \<open>"HTTP <code>"\<close> for a status error, \<open>str(e)\<close> otherwise. All of them derive from
  \<open>Exception\<close> but the last, which stands for those that derive from \<open>BaseException\<close>
  only (a cancellation, a keyboard interrupt).\<close>

datatype exn =
    HTTPStatusError nat
  | TransportError string
  | JSONDecodeError
  | KeyError string
  | TypeError
  | RuntimeError string
  | Cancelled

record AIResponse =
  content_resp :: string
  provider :: AIProvider
  model :: string
  success :: bool
  error :: "exn option"

record AIEngine =
  history :: "Message list"

definition OLLAMA_MODEL :: string where
  "OLLAMA_MODEL = ''kimi-k2.5''"

definition max_history :: nat where
  "max_history = 20"

definition system_prompt :: string where
  "system_prompt =
     ''You are Nebula, an advanced voice assistant.'' @ [newline, newline] @
     ''CRITICAL RULES:'' @ [newline] @
     ''1. OUTPUT ONLY YOUR FINAL ANSWER - never show thinking, reasoning, or drafts'' @ [newline] @
     ''2. Keep responses to 1-2 sentences (will be spoken aloud)'' @ [newline] @
     ''3. Be direct, natural, and conversational'' @ [newline] @
     ''4. Stay factual - if unsure, say so honestly'' @ [newline] @
     ''5. Never speculate or make claims you can'' @ [squote] @ ''t verify'' @ [newline] @
     ''6. Maintain context from previous conversation'' @ [newline] @
     ''7. Use plain speech - no markdown, asterisks, or formatting'' @ [newline, newline] @
     ''RESPOND TO THE USER DIRECTLY. NO EXPLANATIONS OF WHAT YOU'' @ [squote] @ ''RE DOING.''"

definition new_engine :: AIEngine where
  "new_engine = \<lparr>history = []\<rparr>"

text \<open>\<open>self.history[-self.max_history:]\<close>, for the positive \<open>max_history\<close> of the engine:
  the whole list when it is shorter, its last \<open>max_history\<close> elements otherwise.\<close>

definition history_window :: "Message list \<Rightarrow> Message list" where
  "history_window h = drop (length h - max_history) h"

definition user_content :: "string \<Rightarrow> string option \<Rightarrow> string" where
  "user_content user_input screen_context =
     (case screen_context of
        None \<Rightarrow> user_input
      | Some sc \<Rightarrow>
          if sc \<noteq> [] then ''[Screen context: '' @ take 200 sc @ '']'' @ [newline] @ user_input
          else user_input)"

definition build_messages :: "AIEngine \<Rightarrow> string \<Rightarrow> string option \<Rightarrow> Message list" where
  "build_messages eng user_input screen_context =
     \<lparr>role = ''system'', content = system_prompt\<rparr> #
     history_window (history eng) @
     [\<lparr>role = ''user'', content = user_content user_input screen_context\<rparr>]"

text \<open>The parsed body of a reply. A number matters to the engine only through being zero
  or not, so integers stand for all of them.\<close>

datatype json =
    JNull
  | JBool bool
  | JNum int
  | JStr string
  | JArr "json list"
  | JObj "(string \<times> json) list"

text \<open>The two posts of the client. The URL is \<open>OLLAMA_BASE_URL\<close> with \<open>/chat\<close> or
  \<open>/generate\<close>; the headers and the fields \<open>model\<close>, \<open>stream\<close>, \<open>think\<close> and \<open>options\<close>
  are the same constants on every call and are left out.\<close>

datatype request =
    PostChat "Message list"
  | PostGenerate string

text \<open>What a post gives: an exception of the transport, or a response with its status code
  and what \<open>response.json()\<close> would return (\<open>None\<close> when decoding raises).\<close>

datatype http_reply =
    Raises string
  | Reply nat "json option"

text \<open>The world of the engine: the backend, as the reply to each request, and the
  interpreter's \<open>str\<close> on a parsed body.\<close>

record backend =
  post :: "request \<Rightarrow> http_reply"
  py_str :: "json \<Rightarrow> string"

text \<open>\<open>response.raise_for_status()\<close> of httpx: every status outside 200..299 raises.\<close>

definition raise_for_status :: "nat \<Rightarrow> exn + unit" where
  "raise_for_status code =
     (if 200 \<le> code \<and> code \<le> 299 then Inr () else Inl (HTTPStatusError code))"

text \<open>\<open>key in data\<close>, \<open>data[key]\<close> and the truth value of a parsed body.\<close>

fun py_in :: "string \<Rightarrow> json \<Rightarrow> exn + bool" where
  "py_in k (JObj kvs) = Inr (k \<in> set (map fst kvs))"
| "py_in k (JArr xs) = Inr (JStr k \<in> set xs)"
| "py_in k (JStr s) = Inr (contains s k)"
| "py_in k JNull = Inl TypeError"
| "py_in k (JBool b) = Inl TypeError"
| "py_in k (JNum n) = Inl TypeError"

fun py_getitem :: "json \<Rightarrow> string \<Rightarrow> exn + json" where
  "py_getitem (JObj kvs) k = (case map_of kvs k of Some v \<Rightarrow> Inr v | None \<Rightarrow> Inl (KeyError k))"
| "py_getitem (JArr xs) k = Inl TypeError"
| "py_getitem (JStr s) k = Inl TypeError"
| "py_getitem JNull k = Inl TypeError"
| "py_getitem (JBool b) k = Inl TypeError"
| "py_getitem (JNum n) k = Inl TypeError"

fun truthy :: "json \<Rightarrow> bool" where
  "truthy JNull = False"
| "truthy (JBool b) = b"
| "truthy (JNum n) = (n \<noteq> 0)"
| "truthy (JStr s) = (s \<noteq> [])"
| "truthy (JArr xs) = (xs \<noteq> [])"
| "truthy (JObj kvs) = (kvs \<noteq> [])"

text \<open>The \<open>if "message" in data ... elif "response" in data ... else\<close> of \<open>get_response\<close>.\<close>

definition raw_content :: "backend \<Rightarrow> json \<Rightarrow> exn + json" where
  "raw_content be data =
     (case py_in ''message'' data of
        Inl e \<Rightarrow> Inl e
      | Inr has_message \<Rightarrow>
          if has_message then
            (case py_getitem data ''message'' of
               Inl e \<Rightarrow> Inl e
             | Inr m \<Rightarrow> py_getitem m ''content'')
          else
            (case py_in ''response'' data of
               Inl e \<Rightarrow> Inl e
             | Inr has_response \<Rightarrow>
                 if has_response then py_getitem data ''response''
                 else Inr (JStr (py_str be data))))"

text \<open>\<open>_extract_final_answer\<close> on whatever the body held: a false value gives the filler,
  a string is sanitized, anything else makes \<open>re.findall\<close> raise.\<close>

definition extract_raw :: "json \<Rightarrow> exn + string" where
  "extract_raw raw =
     (if \<not> truthy raw then Inr filler
      else (case raw of
              JStr s \<Rightarrow> Inr (extract_final_answer s)
            | _ \<Rightarrow> Inl TypeError))"

definition generate_request :: "string \<Rightarrow> request" where
  "generate_request user_input =
     PostGenerate (system_prompt @ [newline, newline] @ ''User: '' @ user_input @
                   [newline, newline] @ ''Assistant:'')"

text \<open>The posts of one call: the chat request, and the generate request when the chat
  request is answered 404. The result is the exception raised or the last response,
  with the requests posted, in order.\<close>

definition call_backend ::
  "backend \<Rightarrow> request \<Rightarrow> request \<Rightarrow> (exn + nat \<times> json option) \<times> request list" where
  "call_backend be primary secondary =
     (case post be primary of
        Raises msg \<Rightarrow> (Inl (TransportError msg), [primary])
      | Reply code body \<Rightarrow>
          if code = 404 then
            (case post be secondary of
               Raises msg \<Rightarrow> (Inl (TransportError msg), [primary, secondary])
             | Reply code2 body2 \<Rightarrow> (Inr (code2, body2), [primary, secondary]))
          else (Inr (code, body), [primary]))"

text \<open>From the last response to the clean answer: the rest of the \<open>try\<close> block.\<close>

definition read_answer :: "backend \<Rightarrow> nat \<times> json option \<Rightarrow> exn + string" where
  "read_answer be r =
     (case raise_for_status (fst r) of
        Inl e \<Rightarrow> Inl e
      | Inr u \<Rightarrow>
          (case snd r of
             None \<Rightarrow> Inl JSONDecodeError
           | Some data \<Rightarrow>
               (case raw_content be data of
                  Inl e \<Rightarrow> Inl e
                | Inr raw \<Rightarrow> extract_raw raw)))"

definition failure_response :: "exn \<Rightarrow> AIResponse" where
  "failure_response e =
     (case e of
        HTTPStatusError code \<Rightarrow>
          \<lparr>content_resp = ''Sorry, I couldn'' @ [squote] @ ''t process that.'',
           provider = OLLAMA, model = OLLAMA_MODEL, success = False, error = Some e\<rparr>
      | _ \<Rightarrow>
          \<lparr>content_resp = ''Sorry, something went wrong.'',
           provider = OLLAMA, model = OLLAMA_MODEL, success = False, error = Some e\<rparr>)"

text \<open>The \<open>try\<close> block of \<open>get_response\<close> up to the clean answer: the answer, or the
  exception that ends the block.\<close>

definition answer_of :: "backend \<Rightarrow> string \<Rightarrow> string option \<Rightarrow> AIEngine \<Rightarrow> exn + string" where
  "answer_of be user_input screen_context eng =
     (case fst (call_backend be (PostChat (build_messages eng user_input screen_context))
                  (generate_request user_input)) of
        Inl e \<Rightarrow> Inl e
      | Inr r \<Rightarrow> read_answer be r)"

text \<open>\<open>get_response\<close>: the response, the engine after the call, and the requests posted.
  The parameter \<open>use_fallback\<close> of the source is never read and is left out.\<close>

definition get_response ::
  "backend \<Rightarrow> string \<Rightarrow> string option \<Rightarrow> AIEngine \<Rightarrow> AIResponse \<times> AIEngine \<times> request list" where
  "get_response be user_input screen_context eng =
     (let sent = snd (call_backend be (PostChat (build_messages eng user_input screen_context))
                        (generate_request user_input))
      in case answer_of be user_input screen_context eng of
           Inr text \<Rightarrow>
             (\<lparr>content_resp = text, provider = OLLAMA, model = OLLAMA_MODEL,
               success = True, error = None\<rparr>,
              eng\<lparr>history := history eng @
                     [\<lparr>role = ''user'', content = user_input\<rparr>,
                      \<lparr>role = ''assistant'', content = text\<rparr>]\<rparr>,
              sent)
         | Inl e \<Rightarrow> (failure_response e, eng, sent))"




definition clear_history :: "AIEngine \<Rightarrow> AIEngine" where
  "clear_history eng = eng\<lparr>history := []\<rparr>"

text \<open>The engines the program can hold: a new one, and what \<open>get_response\<close> and
  \<open>clear_history\<close> make of one.\<close>

inductive reachable :: "AIEngine \<Rightarrow> bool" where
  reachable_new: "reachable new_engine"
| reachable_response:
    "reachable eng \<Longrightarrow> reachable (fst (snd (get_response be user_input screen_context eng)))"
| reachable_clear: "reachable eng \<Longrightarrow> reachable (clear_history eng)"

text \<open>A history made of whole exchanges: a user turn, then its assistant turn.\<close>

fun paired :: "Message list \<Rightarrow> bool" where
  "paired [] = True"
| "paired [m] = False"
| "paired (u # a # rest) = (role u = ''user'' \<and> role a = ''assistant'' \<and> paired rest)"

section \<open>The orchestrator: \<open>VoiceAssistant\<close>\<close>

text \<open>The calls the orchestrator makes to its collaborators, in the order it makes them.\<close>

datatype event =
    Speak string bool
  | SetStatus string
  | Listen
  | ScreenSummary
  | Posted request

text \<open>One turn's world: what each collaborator returns or raises when called.
  \<open>loop_raises\<close> is \<open>run_until_complete\<close> failing before the engine runs.\<close>

record world =
  listen_result :: "exn + bool \<times> string"
  screen_summary :: "exn + string"
  speak_raises :: "string \<Rightarrow> exn option"
  status_raises :: "string \<Rightarrow> exn option"
  loop_raises :: "exn option"
  the_backend :: backend

record VoiceAssistant =
  listening_enabled :: bool
  processing :: bool
  ai :: AIEngine
  trace :: "event list"

definition new_assistant :: VoiceAssistant where
  "new_assistant = \<lparr>listening_enabled = True, processing = False, ai = new_engine, trace = []\<rparr>"

text \<open>A method of the orchestrator: from a state to what it returns or raises and the
  state it leaves.\<close>

type_synonym 'a proc = "VoiceAssistant \<Rightarrow> (exn + 'a) \<times> VoiceAssistant"

definition return_proc :: "'a \<Rightarrow> 'a proc" where
  "return_proc a s = (Inr a, s)"

definition bind_proc :: "'a proc \<Rightarrow> ('a \<Rightarrow> 'b proc) \<Rightarrow> 'b proc" where
  "bind_proc m f s = (case m s of (Inl e, s1) \<Rightarrow> (Inl e, s1) | (Inr a, s1) \<Rightarrow> f a s1)"

definition then_proc :: "'a proc \<Rightarrow> 'b proc \<Rightarrow> 'b proc" where
  "then_proc m n = bind_proc m (\<lambda>a. n)"

text \<open>\<open>try: m except Exception as e: h e\<close>.\<close>

definition try_except :: "'a proc \<Rightarrow> (exn \<Rightarrow> 'a proc) \<Rightarrow> 'a proc" where
  "try_except m h s = (case m s of (Inl e, s1) \<Rightarrow> h e s1 | (Inr a, s1) \<Rightarrow> (Inr a, s1))"

text \<open>\<open>try: m finally: fin\<close>: \<open>fin\<close> runs on every exit of \<open>m\<close>; what \<open>fin\<close> raises
  replaces the outcome of \<open>m\<close>.\<close>

definition try_finally :: "'a proc \<Rightarrow> unit proc \<Rightarrow> 'a proc" where
  "try_finally m fin s =
     (case m s of (r, s1) \<Rightarrow>
        (case fin s1 of (Inl e, s2) \<Rightarrow> (Inl e, s2) | (Inr u, s2) \<Rightarrow> (r, s2)))"

definition log :: "event \<Rightarrow> VoiceAssistant \<Rightarrow> VoiceAssistant" where
  "log ev s = s\<lparr>trace := trace s @ [ev]\<rparr>"

definition speak :: "world \<Rightarrow> string \<Rightarrow> bool \<Rightarrow> unit proc" where
  "speak w text block s =
     ((case speak_raises w text of Some e \<Rightarrow> Inl e | None \<Rightarrow> Inr ()), log (Speak text block) s)"

definition set_status :: "world \<Rightarrow> string \<Rightarrow> unit proc" where
  "set_status w status s =
     ((case status_raises w status of Some e \<Rightarrow> Inl e | None \<Rightarrow> Inr ()), log (SetStatus status) s)"

definition listen :: "world \<Rightarrow> (bool \<times> string) proc" where
  "listen w s = (listen_result w, log Listen s)"

definition get_screen_summary :: "world \<Rightarrow> string proc" where
  "get_screen_summary w s = (screen_summary w, log ScreenSummary s)"

text \<open>\<open>self._event_loop.run_until_complete(self.ai.get_response(text, screen_context))\<close>.\<close>

definition ask_ai :: "world \<Rightarrow> string \<Rightarrow> string option \<Rightarrow> AIResponse proc" where
  "ask_ai w text screen_context s =
     (case loop_raises w of
        Some e \<Rightarrow> (Inl e, s)
      | None \<Rightarrow>
          (case get_response (the_backend w) text screen_context (ai s) of
             (response, eng, reqs) \<Rightarrow>
               (Inr response, s\<lparr>ai := eng, trace := trace s @ map Posted reqs\<rparr>)))"

text \<open>The messages of \<open>config\<close>.\<close>

definition error_message :: string where
  "error_message = ''I'' @ [squote] @ ''m sorry, I didn'' @ [squote] @ ''t catch that. Could you repeat?''"

definition processing_message :: string where
  "processing_message = ''Let me think about that...''"

text \<open>\<open>any(kw in text.lower() for kw in keywords)\<close>, with the keyword list of each method.\<close>

definition mentions :: "string list \<Rightarrow> string \<Rightarrow> bool" where
  "mentions keywords text = list_ex (contains (lower text)) keywords"

definition voice_keywords :: "string list" where
  "voice_keywords =
     [''screen'', ''see'', ''show'', ''read'', ''what'' @ [squote] @ ''s on'', ''look at'']"

definition text_keywords :: "string list" where
  "text_keywords = [''screen'', ''see'', ''show'', ''read'', ''what'' @ [squote] @ ''s on'']"

text \<open>The \<open>try\<close> block of \<open>_process_voice_command\<close>.\<close>

definition voice_command_body :: "world \<Rightarrow> unit proc" where
  "voice_command_body w =
     then_proc (set_status w ''listening'')
       (bind_proc (listen w) (\<lambda>heard.
          if \<not> fst heard then
            then_proc (speak w error_message True) (set_status w ''idle'')
          else
            bind_proc
              (if mentions voice_keywords (snd heard) then
                 then_proc (set_status w ''processing'')
                   (bind_proc (get_screen_summary w) (\<lambda>summary. return_proc (Some summary)))
               else return_proc None)
              (\<lambda>screen_context.
                 then_proc (set_status w ''processing'')
                   (then_proc (speak w processing_message False)
                      (bind_proc (ask_ai w (snd heard) screen_context) (\<lambda>response.
                         if success response then
                           then_proc (set_status w ''speaking'')
                             (speak w (content_resp response) True)
                         else
                           speak w (''I'' @ [squote] @ ''m sorry, I couldn'' @ [squote] @
                                    ''t get a response. Please try again.'') True))))))"

text \<open>The \<open>finally\<close> block of both methods: clear the guard, then set the status.\<close>

definition release :: "world \<Rightarrow> unit proc" where
  "release w s = set_status w ''idle'' (s\<lparr>processing := False\<rparr>)"

definition process_voice_command :: "world \<Rightarrow> unit proc" where
  "process_voice_command w s =
     (if processing s then (Inr (), s)
      else
        try_finally
          (try_except (voice_command_body w)
             (\<lambda>e. speak w ''Sorry, something went wrong.'' True))
          (release w)
          (s\<lparr>processing := True\<rparr>))"

definition on_wake_word_detected :: "world \<Rightarrow> unit proc" where
  "on_wake_word_detected w s =
     (if \<not> listening_enabled s \<or> processing s then (Inr (), s)
      else
        then_proc (set_status w ''listening'')
          (then_proc (speak w ''Yes?'' True) (process_voice_command w)) s)"

text \<open>The \<open>try\<close> block of \<open>_process_command_text\<close>.\<close>

definition command_text_body :: "world \<Rightarrow> string \<Rightarrow> unit proc" where
  "command_text_body w text =
     bind_proc
       (if mentions text_keywords text then
          bind_proc (get_screen_summary w) (\<lambda>summary. return_proc (Some summary))
        else return_proc None)
       (\<lambda>screen_context.
          then_proc (set_status w ''processing'')
            (bind_proc (ask_ai w text screen_context) (\<lambda>response.
               if success response then
                 then_proc (set_status w ''speaking'') (speak w (content_resp response) True)
               else
                 speak w (''I couldn'' @ [squote] @ ''t get a response.'') True)))"

definition process_command_text :: "world \<Rightarrow> string \<Rightarrow> unit proc" where
  "process_command_text w text s =
     (if processing s then (Inr (), s)
      else try_finally (command_text_body w text) (release w) (s\<lparr>processing := True\<rparr>))"

section \<open>Notions of the specification and sample worlds\<close>

text \<open>
  The double-quoted spans of a text, in the words of the specification: the quotes of a
  text pair up from the left, the first with the second, the third with the fourth, and a
  span is the text enclosed by an opening quote and its closing quote. Of the pieces that
  the quotes cut the text into, these are the second, the fourth and so on, each one only
  when a quote closes it. The spans of the claims are those of 5 to 100 characters.
\<close>

fun enclosed :: "string list \<Rightarrow> string list" where
  "enclosed (outside # inside # next_piece # pieces) = inside # enclosed (next_piece # pieces)"
| "enclosed pieces = []"

definition quoted_spans :: "string \<Rightarrow> string list" where
  "quoted_spans text =
     filter (\<lambda>span. 5 \<le> length span \<and> length span \<le> 100)
       (enclosed (split_on dquote text))"

text \<open>A reply that counts as a failed backend call: the transport raised, the status is
  an error status, or the body could not be decoded.\<close>

definition call_failed :: "exn + nat \<times> json option \<Rightarrow> bool" where
  "call_failed r =
     (case r of
        Inl e \<Rightarrow> True
      | Inr (code, body) \<Rightarrow> \<not> (200 \<le> code \<and> code \<le> 299) \<or> body = None)"

definition reply_failed :: "http_reply \<Rightarrow> bool" where
  "reply_failed r =
     (case r of
        Raises msg \<Rightarrow> True
      | Reply code body \<Rightarrow> \<not> (200 \<le> code \<and> code \<le> 299) \<or> body = None)"

text \<open>A backend that answers every request 404, one that answers with the empty object,
  one that answers in the chat envelope, and one whose connection always breaks.\<close>

definition backend_not_found :: backend where
  "backend_not_found = \<lparr>post = (\<lambda>r. Reply 404 None), py_str = (\<lambda>d. [])\<rparr>"


definition backend_chat :: backend where
  "backend_chat =
     \<lparr>post = (\<lambda>r. Reply 200 (Some (JObj [(''message'', JObj [(''content'', JStr ''Hello there.'')])]))),
      py_str = (\<lambda>d. [])\<rparr>"

definition backend_down :: backend where
  "backend_down = \<lparr>post = (\<lambda>r. Raises ''timeout''), py_str = (\<lambda>d. [])\<rparr>"

text \<open>Sample outputs of the backend.\<close>

definition hi_and_hello :: string where
  "hi_and_hello = [dquote] @ ''hi'' @ [dquote] @ '' and '' @ [dquote] @ ''hello there'' @ [dquote]"



definition quiet_world :: "backend \<Rightarrow> world" where
  "quiet_world be =
     \<lparr>listen_result = Inr (True, ''look at that''),
      screen_summary = Inr ''a window'',
      speak_raises = (\<lambda>t. None),
      status_raises = (\<lambda>t. None),
      loop_raises = None,
      the_backend = be\<rparr>"

section \<open>Properties of the sanitizer\<close>





text \<open>
  Claim C1 at the failing input. In \<open>"hi" and "hello there"\<close> the only double-quoted span
  of 5 to 100 characters is \<open>hello there\<close>. The scan of \<open>re.findall\<close> fails at the opening
  quote of \<open>"hi"\<close>, whose span is too short, and then takes the closing quote of \<open>"hi"\<close>
  as an opening quote: its only match is the text between the two quotations, and the
  result is \<open>and\<close>, which no quotation of the text holds.
\<close>

theorem quoted_answer_misses_last_span:
  "quoted_spans hi_and_hello = [''hello there'']
   \<and> find_quotes hi_and_hello = ['' and '']
   \<and> extract_final_answer hi_and_hello = ''and''"
  by code_simp





























lemma startswith_Nil: "startswith s [] = True"
  by (simp add: startswith_def)
























section \<open>Properties of the backend client\<close>

lemma failure_response_not_success: "\<not> success (failure_response e)"
  by (cases e) (simp_all add: failure_response_def)

lemma get_response_Inl:
  "answer_of be u sc eng = Inl e \<Longrightarrow>
   get_response be u sc eng =
     (failure_response e, eng,
      snd (call_backend be (PostChat (build_messages eng u sc)) (generate_request u)))"
  by (simp add: get_response_def Let_def)

lemma get_response_Inr:
  "answer_of be u sc eng = Inr text \<Longrightarrow>
   get_response be u sc eng =
     (\<lparr>content_resp = text, provider = OLLAMA, model = OLLAMA_MODEL,
       success = True, error = None\<rparr>,
      eng\<lparr>history := history eng @
             [\<lparr>role = ''user'', content = u\<rparr>, \<lparr>role = ''assistant'', content = text\<rparr>]\<rparr>,
      snd (call_backend be (PostChat (build_messages eng u sc)) (generate_request u)))"
  by (simp add: get_response_def Let_def)

lemma get_response_sent:
  "snd (snd (get_response be u sc eng)) =
     snd (call_backend be (PostChat (build_messages eng u sc)) (generate_request u))"
  by (cases "answer_of be u sc eng") (simp_all add: get_response_Inl get_response_Inr)

lemma get_response_failure_keeps:
  "\<not> success (fst (get_response be u sc eng)) \<Longrightarrow> fst (snd (get_response be u sc eng)) = eng"
  by (cases "answer_of be u sc eng") (simp_all add: get_response_Inl get_response_Inr)

lemma read_answer_failed:
  "call_failed (Inr r) \<Longrightarrow> \<exists>e. read_answer be r = Inl e"
  by (cases r)
    (auto simp: call_failed_def read_answer_def raise_for_status_def split: option.splits)

lemma answer_of_failed:
  assumes "call_failed (fst (call_backend be (PostChat (build_messages eng u sc))
                              (generate_request u)))"
  shows "\<exists>e. answer_of be u sc eng = Inl e"
proof (cases "fst (call_backend be (PostChat (build_messages eng u sc)) (generate_request u))")
  case (Inl e)
  then show ?thesis by (simp add: answer_of_def)
next
  case (Inr r)
  with assms obtain e where "read_answer be r = Inl e"
    using read_answer_failed by metis
  with Inr show ?thesis by (simp add: answer_of_def)
qed

text \<open>
  Claim C4. Whenever the backend call fails (the transport raises, the last response has
  an error status, or its body cannot be decoded), and whenever any other exception ends
  the \<open>try\<close> block, \<open>get_response\<close> returns a failure; and whenever \<open>get_response\<close>
  returns a failure, the history of the engine is what it was before the call.
\<close>

theorem failed_call_keeps_history:
  "(call_failed (fst (call_backend be (PostChat (build_messages eng u sc)) (generate_request u)))
      \<longrightarrow> \<not> success (fst (get_response be u sc eng)))
   \<and> (answer_of be u sc eng = Inl e \<longrightarrow> \<not> success (fst (get_response be u sc eng)))
   \<and> (\<not> success (fst (get_response be u sc eng))
      \<longrightarrow> history (fst (snd (get_response be u sc eng))) = history eng)"
proof (intro conjI impI)
  assume "call_failed (fst (call_backend be (PostChat (build_messages eng u sc))
                             (generate_request u)))"
  then obtain e' where "answer_of be u sc eng = Inl e'"
    using answer_of_failed by blast
  then show "\<not> success (fst (get_response be u sc eng))"
    by (simp add: get_response_Inl failure_response_not_success)
next
  assume "answer_of be u sc eng = Inl e"
  then show "\<not> success (fst (get_response be u sc eng))"
    by (simp add: get_response_Inl failure_response_not_success)
next
  assume "\<not> success (fst (get_response be u sc eng))"
  then show "history (fst (snd (get_response be u sc eng))) = history eng"
    by (simp add: get_response_failure_keeps)
qed

theorem failed_call_keeps_history_witness:
  "call_failed (fst (call_backend backend_down (PostChat (build_messages new_engine ''hi'' None))
                      (generate_request ''hi'')))
   \<and> answer_of backend_down ''hi'' None new_engine = Inl (TransportError ''timeout'')
   \<and> \<not> success (fst (get_response backend_down ''hi'' None new_engine))
   \<and> history (fst (snd (get_response backend_down ''hi'' None new_engine))) = []"
proof -
  have h: "call_failed (fst (call_backend backend_down
              (PostChat (build_messages new_engine ''hi'' None)) (generate_request ''hi'')))"
    by (simp add: call_failed_def call_backend_def backend_down_def)
  have a: "answer_of backend_down ''hi'' None new_engine = Inl (TransportError ''timeout'')"
    by (simp add: answer_of_def call_backend_def backend_down_def)
  from failed_call_keeps_history
         [of backend_down new_engine "''hi''" None "TransportError ''timeout''"] h a
  show ?thesis by (simp add: new_engine_def)
qed

lemma paired_append: "paired xs \<Longrightarrow> paired ys \<Longrightarrow> paired (xs @ ys)"
  by (induction xs rule: paired.induct) simp_all

lemma paired_even: "paired xs \<Longrightarrow> even (length xs)"
  by (induction xs rule: paired.induct) simp_all

lemma paired_drop: "paired xs \<Longrightarrow> even k \<Longrightarrow> paired (drop k xs)"
proof (induction xs arbitrary: k rule: paired.induct)
  case 1
  then show ?case by simp
next
  case (2 m)
  then show ?case by simp
next
  case (3 u a rest)
  show ?case
  proof (cases k)
    case 0
    with 3 show ?thesis by simp
  next
    case (Suc j)
    with 3(3) obtain i where j: "j = Suc i" by (cases j) auto
    with Suc 3(3) have "even i" by simp
    moreover from 3(2) have "paired rest" by simp
    ultimately have "paired (drop i rest)" by (rule 3(1)[rotated])
    with Suc j show ?thesis by simp
  qed
qed

lemma reachable_paired: "reachable eng \<Longrightarrow> paired (history eng)"
proof (induction rule: reachable.induct)
  case reachable_new
  show ?case by (simp add: new_engine_def)
next
  case (reachable_response eng be u sc)
  show ?case
  proof (cases "answer_of be u sc eng")
    case (Inl e)
    with reachable_response show ?thesis by (simp add: get_response_Inl)
  next
    case (Inr ans)
    have "paired [\<lparr>role = ''user'', content = u\<rparr>, \<lparr>role = ''assistant'', content = ans\<rparr>]"
      by simp
    with reachable_response have "paired (history eng @ [\<lparr>role = ''user'', content = u\<rparr>, \<lparr>role = ''assistant'', content = ans\<rparr>])"
      by (intro paired_append)
    with Inr show ?thesis by (simp add: get_response_Inr)
  qed
next
  case (reachable_clear eng)
  show ?case by (simp add: clear_history_def)
qed

lemma window_paired: "paired h \<Longrightarrow> paired (history_window h)"
  unfolding history_window_def max_history_def
  by (rule paired_drop) (auto dest: paired_even)

lemma window_length: "length (history_window h) \<le> 20"
  by (simp add: history_window_def max_history_def)

text \<open>
  Claim C5. In every engine the program can reach, the history is a sequence of whole
  exchanges, each a user turn followed by its assistant turn. The window rendered into a
  request (the messages between the system message and the current user message) is the
  last 20 turns of the history, has at most 20 turns, and is itself a sequence of whole
  exchanges: the boundary of the window never splits a pair.
\<close>

theorem history_in_pairs:
  assumes "reachable eng"
  shows "paired (history eng)
     \<and> butlast (tl (build_messages eng u sc)) = drop (length (history eng) - 20) (history eng)
     \<and> length (butlast (tl (build_messages eng u sc))) \<le> 20
     \<and> paired (butlast (tl (build_messages eng u sc)))"
proof -
  have w: "butlast (tl (build_messages eng u sc)) = history_window (history eng)"
    by (simp add: build_messages_def butlast_append)
  from assms have p: "paired (history eng)" by (rule reachable_paired)
  show ?thesis
    unfolding w using p window_paired [OF p] window_length [of "history eng"]
    by (simp add: history_window_def max_history_def)
qed

theorem history_in_pairs_witness:
  "reachable (fst (snd (get_response backend_chat ''hi'' None new_engine)))
   \<and> paired (history (fst (snd (get_response backend_chat ''hi'' None new_engine))))
   \<and> length (butlast (tl (build_messages (fst (snd (get_response backend_chat ''hi'' None new_engine))) ''again'' None))) \<le> 20"
proof -
  have r: "reachable (fst (snd (get_response backend_chat ''hi'' None new_engine)))"
    by (rule reachable_response [OF reachable_new])
  from history_in_pairs [OF r, of "''again''" None] r show ?thesis by simp
qed

lemma call_backend_404:
  "post be p = Reply 404 body \<Longrightarrow>
   call_backend be p q =
     (case post be q of
        Raises msg \<Rightarrow> (Inl (TransportError msg), [p, q])
      | Reply code2 body2 \<Rightarrow> (Inr (code2, body2), [p, q]))"
  by (simp add: call_backend_def)

lemma call_backend_404_sent:
  "post be p = Reply 404 body \<Longrightarrow> snd (call_backend be p q) = [p, q]"
  by (simp add: call_backend_404 split: http_reply.splits)

lemma call_backend_404_failed:
  "post be p = Reply 404 body \<Longrightarrow> reply_failed (post be q) \<Longrightarrow>
   call_failed (fst (call_backend be p q))"
  by (auto simp: call_backend_404 reply_failed_def call_failed_def split: http_reply.splits)

text \<open>
  Claim C7. When the chat request is answered 404, \<open>get_response\<close> posts exactly two
  requests: the chat request and then one generate request. If that retry fails too (the
  transport raises, an error status, or an undecodable body), the result is a failure,
  nothing more is posted and the engine is unchanged.
\<close>

theorem not_found_retries_once:
  assumes "post be (PostChat (build_messages eng u sc)) = Reply 404 body"
  shows "snd (snd (get_response be u sc eng)) =
           [PostChat (build_messages eng u sc), generate_request u]
     \<and> (reply_failed (post be (generate_request u)) \<longrightarrow>
          \<not> success (fst (get_response be u sc eng))
          \<and> fst (snd (get_response be u sc eng)) = eng)"
proof (intro conjI impI)
  show "snd (snd (get_response be u sc eng)) = [PostChat (build_messages eng u sc), generate_request u]"
    by (simp add: get_response_sent call_backend_404_sent [OF assms])
next
  assume f: "reply_failed (post be (generate_request u))"
  have "call_failed (fst (call_backend be (PostChat (build_messages eng u sc)) (generate_request u)))"
    using assms f by (rule call_backend_404_failed)
  then obtain e where "answer_of be u sc eng = Inl e"
    using answer_of_failed by blast
  then show "\<not> success (fst (get_response be u sc eng))"
    and "fst (snd (get_response be u sc eng)) = eng"
    by (simp_all add: get_response_Inl failure_response_not_success)
qed

theorem not_found_retries_once_witness:
  "post backend_not_found (PostChat (build_messages new_engine ''hi'' None)) = Reply 404 None
   \<and> length (snd (snd (get_response backend_not_found ''hi'' None new_engine))) = 2
   \<and> reply_failed (post backend_not_found (generate_request ''hi''))
   \<and> \<not> success (fst (get_response backend_not_found ''hi'' None new_engine))"
proof -
  have h: "post backend_not_found (PostChat (build_messages new_engine ''hi'' None)) = Reply 404 None"
    by (simp add: backend_not_found_def)
  have f: "reply_failed (post backend_not_found (generate_request ''hi''))"
    by (simp add: backend_not_found_def reply_failed_def)
  from not_found_retries_once [OF h] f h show ?thesis by simp
qed

text \<open>
  Claim C10. When the chat request is answered 404, the first request carries the system
  prompt, the history window and the user input with its screen context, and the retry
  carries a prompt made of the system prompt and the user input only: neither the history
  nor the screen context occurs in it.
\<close>

theorem retry_prompt_has_no_context:
  assumes "post be (PostChat (build_messages eng u sc)) = Reply 404 body"
  shows "hd (snd (snd (get_response be u sc eng))) =
           PostChat (\<lparr>role = ''system'', content = system_prompt\<rparr> #
                     history_window (history eng) @
                     [\<lparr>role = ''user'', content = user_content u sc\<rparr>])
     \<and> last (snd (snd (get_response be u sc eng))) =
           PostGenerate (system_prompt @ [newline, newline] @ ''User: '' @ u @
                         [newline, newline] @ ''Assistant:'')"
proof -
  have "snd (snd (get_response be u sc eng)) =
          [PostChat (build_messages eng u sc), generate_request u]"
    by (simp add: get_response_sent call_backend_404_sent [OF assms])
  then show ?thesis
    by (simp add: generate_request_def build_messages_def)
qed

theorem retry_prompt_has_no_context_witness:
  "post backend_not_found (PostChat (build_messages new_engine ''hi'' (Some ''a window''))) = Reply 404 None
   \<and> last (snd (snd (get_response backend_not_found ''hi'' (Some ''a window'') new_engine))) =
       PostGenerate (system_prompt @ [newline, newline] @ ''User: hi'' @ [newline, newline] @ ''Assistant:'')"
proof -
  have h: "post backend_not_found (PostChat (build_messages new_engine ''hi'' (Some ''a window''))) = Reply 404 None"
    by (simp add: backend_not_found_def)
  from retry_prompt_has_no_context [OF h] h show ?thesis by simp
qed
















section \<open>Properties of the orchestrator\<close>

lemma release_clears: "\<not> processing (snd (release w s))"
  by (simp add: release_def set_status_def log_def)

lemma try_finally_release_clears: "\<not> processing (snd (try_finally m (release w) s))"
proof -
  obtain r s1 where m: "m s = (r, s1)" by (cases "m s")
  obtain q s2 where f: "release w s1 = (q, s2)" by (cases "release w s1")
  from f have "\<not> processing s2" using release_clears [of w s1] by simp
  with m f show ?thesis by (cases q) (simp_all add: try_finally_def)
qed

lemma set_status_processing: "processing (snd (set_status w st s)) = processing s"
  by (simp add: set_status_def log_def)

lemma speak_processing: "processing (snd (speak w t b s)) = processing s"
  by (simp add: speak_def log_def)

lemma wake_word_clears:
  assumes "\<not> processing s"
  shows "\<not> processing (snd (on_wake_word_detected w s))"
proof (cases "listening_enabled s")
  case False
  with assms show ?thesis by (simp add: on_wake_word_detected_def)
next
  case True
  obtain r1 s1 where a: "set_status w ''listening'' s = (r1, s1)"
    by (cases "set_status w ''listening'' s")
  obtain r2 s2 where b: "speak w ''Yes?'' True s1 = (r2, s2)"
    by (cases "speak w ''Yes?'' True s1")
  from a assms have p1: "\<not> processing s1" using set_status_processing [of w "''listening''" s] by simp
  from b p1 have p2: "\<not> processing s2" using speak_processing [of w "''Yes?''" True s1] by simp
  have p3: "\<not> processing (snd (process_voice_command w s2))"
    using p2 by (simp add: process_voice_command_def try_finally_release_clears)
  from True assms a b p1 p2 p3 show ?thesis
    by (cases r1; cases r2) (simp_all add: on_wake_word_detected_def then_proc_def bind_proc_def)
qed

text \<open>
  Claim C6. While the guard \<open>processing\<close> is held, a wake-word signal and both
  command-processing methods return at once and leave the state as it is (no call to a
  collaborator, no change of the history). A cycle that starts with the guard free ends
  with the guard free, whatever the collaborators return or raise.
\<close>

theorem guard_excludes_and_is_released:
  "(processing s \<longrightarrow>
      process_voice_command w s = (Inr (), s)
      \<and> process_command_text w t s = (Inr (), s)
      \<and> on_wake_word_detected w s = (Inr (), s))
   \<and> (\<not> processing s \<longrightarrow>
      \<not> processing (snd (process_voice_command w s))
      \<and> \<not> processing (snd (process_command_text w t s))
      \<and> \<not> processing (snd (on_wake_word_detected w s)))"
proof (intro conjI impI)
  assume "processing s"
  then show "process_voice_command w s = (Inr (), s)"
    and "process_command_text w t s = (Inr (), s)"
    and "on_wake_word_detected w s = (Inr (), s)"
    by (simp_all add: process_voice_command_def process_command_text_def
        on_wake_word_detected_def)
next
  assume "\<not> processing s"
  then show "\<not> processing (snd (process_voice_command w s))"
    and "\<not> processing (snd (process_command_text w t s))"
    and "\<not> processing (snd (on_wake_word_detected w s))"
    by (simp_all add: process_voice_command_def process_command_text_def
        try_finally_release_clears wake_word_clears)
qed

theorem guard_excludes_and_is_released_witness:
  "processing (new_assistant\<lparr>processing := True\<rparr>)
   \<and> process_command_text (quiet_world backend_down) ''hello''
        (new_assistant\<lparr>processing := True\<rparr>) = (Inr (), new_assistant\<lparr>processing := True\<rparr>)
   \<and> \<not> processing new_assistant
   \<and> \<not> processing (snd (process_command_text (quiet_world backend_down) ''hello'' new_assistant))"
proof -
  have a: "processing (new_assistant\<lparr>processing := True\<rparr>)" by simp
  have b: "\<not> processing new_assistant" by (simp add: new_assistant_def)
  from guard_excludes_and_is_released
         [of "new_assistant\<lparr>processing := True\<rparr>" "quiet_world backend_down" "''hello''"]
       guard_excludes_and_is_released [of new_assistant "quiet_world backend_down" "''hello''"]
       a b
  show ?thesis by simp
qed

lemma look_at_voice: "mentions voice_keywords ''look at that''"
  by code_simp

lemma look_at_text: "\<not> mentions text_keywords ''look at that''"
  by code_simp

lemma no_capture_in_text_path:
  assumes "\<not> mentions text_keywords t" and "\<not> processing s"
  shows "filter (\<lambda>e. e = ScreenSummary) (trace (snd (process_command_text w t s))) =
         filter (\<lambda>e. e = ScreenSummary) (trace s)"
  using assms
  by (auto simp: process_command_text_def try_finally_def command_text_body_def bind_proc_def
      then_proc_def return_proc_def set_status_def speak_def ask_ai_def release_def log_def
      split: prod.splits sum.splits option.splits if_splits)

lemma text_path_context:
  assumes "\<not> mentions text_keywords t" and "\<not> processing s"
    and "status_raises w ''processing'' = None" and "loop_raises w = None"
  shows "\<exists>rest. trace (snd (process_command_text w t s)) =
           trace s @ SetStatus ''processing'' #
             map Posted (snd (snd (get_response (the_backend w) t None (ai s)))) @ rest"
  using assms
  by (auto simp: process_command_text_def try_finally_def command_text_body_def bind_proc_def
      then_proc_def return_proc_def set_status_def speak_def ask_ai_def release_def log_def
      split: prod.splits sum.splits option.splits if_splits)

lemma capture_in_voice_path:
  "\<exists>rest. trace (snd (process_voice_command (quiet_world be) new_assistant)) =
     [SetStatus ''listening'', Listen, SetStatus ''processing'', ScreenSummary,
      SetStatus ''processing'', Speak processing_message False] @
     map Posted (snd (snd (get_response be ''look at that'' (Some ''a window'') new_engine))) @ rest"
  using look_at_voice
  by (auto simp: process_voice_command_def try_finally_def try_except_def voice_command_body_def
      bind_proc_def then_proc_def return_proc_def set_status_def speak_def ask_ai_def release_def
      log_def listen_def get_screen_summary_def quiet_world_def new_assistant_def
      split: prod.splits sum.splits option.splits if_splits)

text \<open>
  Claim C9 at the failing input. The command \<open>look at that\<close> contains the keyword
  \<open>look at\<close> of \<open>_process_voice_command\<close>, which captures the screen for it, but the
  keyword list of \<open>_process_command_text\<close> lacks \<open>look at\<close>: in any world that method
  never calls the screen summary for this command, and the request it posts is built
  with no screen context.
\<close>

theorem look_at_skips_capture_in_text_path:
  "mentions voice_keywords ''look at that''
   \<and> \<not> mentions text_keywords ''look at that''
   \<and> ScreenSummary \<notin> set (trace (snd (process_command_text w ''look at that'' new_assistant)))
   \<and> ScreenSummary \<in> set (trace (snd (process_voice_command (quiet_world be) new_assistant)))
   \<and> (\<exists>rest. trace (snd (process_command_text (quiet_world be) ''look at that'' new_assistant)) =
         SetStatus ''processing'' #
         map Posted (snd (snd (get_response be ''look at that'' None new_engine))) @ rest)"
proof -
  have "filter (\<lambda>e. e = ScreenSummary)
          (trace (snd (process_command_text w ''look at that'' new_assistant))) = []"
    using no_capture_in_text_path [OF look_at_text, of new_assistant w]
    by (simp add: new_assistant_def)
  then have a: "ScreenSummary \<notin> set (trace (snd (process_command_text w ''look at that'' new_assistant)))"
    by (auto simp: filter_empty_conv)
  obtain rest where "trace (snd (process_voice_command (quiet_world be) new_assistant)) =
     [SetStatus ''listening'', Listen, SetStatus ''processing'', ScreenSummary,
      SetStatus ''processing'', Speak processing_message False] @
     map Posted (snd (snd (get_response be ''look at that'' (Some ''a window'') new_engine))) @ rest"
    using capture_in_voice_path by blast
  then have b: "ScreenSummary \<in> set (trace (snd (process_voice_command (quiet_world be) new_assistant)))"
    by simp
  have c: "\<exists>rest. trace (snd (process_command_text (quiet_world be) ''look at that'' new_assistant)) =
         SetStatus ''processing'' #
         map Posted (snd (snd (get_response be ''look at that'' None new_engine))) @ rest"
    using text_path_context [OF look_at_text, of new_assistant "quiet_world be"]
    by (simp add: new_assistant_def quiet_world_def)
  from a b c look_at_voice look_at_text show ?thesis by simp
qed

end
